theory Spec2Isabelle
  imports Complex_Main
begin

section \<open>The move synchronizer of \<open>src/web/script.js\<close>\<close>

text \<open>
  The script keeps one global variable \<open>prev\<close>, registers two handlers with the board
  widget (\<open>onDragStart\<close>, \<open>onDrop\<close>) and, in \<open>onDrop\<close>, hands a continuation to
  \<open>$.post\<close>. The browser runs these one at a time, so the script is modelled as functions
  on an explicit state, and an execution as a list of events.
\<close>

subsection \<open>JavaScript values reaching the continuation\<close>

text \<open>
  The continuation \<open>function(data, status)\<close> is untyped. The transport hands it the body
  as a string, or, when the response is labelled as JSON, the parsed value. The only thing
  the script does with \<open>data\<close> is the loose comparison \<open>data != "valid"\<close>, which looks at
  a primitive value directly and at an object through its conversion to a primitive.
  An object is therefore represented by the outcome of that conversion: \<open>Obj (Some p)\<close>
  converts to the primitive \<open>p\<close> (the array \<open>["valid"]\<close> converts to the string
  \<open>valid\<close>, the object \<open>{}\<close> to \<open>[object Object]\<close>), and \<open>Obj None\<close> is an object
  whose conversion throws (a parsed \<open>{"toString": 1}\<close>, whose \<open>toString\<close> is not a
  function). The value of a number is never looked at. Symbols and big integers, which no
  response carries, are left out.
\<close>

datatype jsprim = JUndefined | JNull | JBool bool | JNum real | JStr string

datatype jsval = Prim jsprim | Obj "jsprim option"

datatype error = TypeError

text \<open>
  \<open>Array.prototype.toString\<close> on an array of strings: the elements joined by commas.
  \<open>js_array\<close> is the value \<open>JSON.parse\<close> returns for a body that is a JSON array of
  strings.
\<close>

fun join_comma :: "string list \<Rightarrow> string" where
  "join_comma [] = []"
| "join_comma [x] = x"
| "join_comma (x # y # ys) = x @ '','' @ join_comma (y # ys)"

definition js_array :: "string list \<Rightarrow> jsval" where
  "js_array xs = Obj (Some (JStr (join_comma xs)))"

text \<open>
  \<open>p == "valid"\<close> for a primitive \<open>p\<close>. Two strings are compared as they are. A number
  is compared with the numeric value of \<open>"valid"\<close>, which is NaN and equals nothing; a
  boolean becomes a number first; \<open>null\<close> and \<open>undefined\<close> equal no string.
\<close>

fun prim_eq_valid :: "jsprim \<Rightarrow> bool" where
  "prim_eq_valid (JStr s) = (s = ''valid'')"
| "prim_eq_valid (JNum n) = False"
| "prim_eq_valid (JBool b) = False"
| "prim_eq_valid JNull = False"
| "prim_eq_valid JUndefined = False"

text \<open>The expression \<open>data != "valid"\<close> of line 5.\<close>

fun neq_valid :: "jsval \<Rightarrow> error + bool" where
  "neq_valid (Prim p) = Inr (\<not> prim_eq_valid p)"
| "neq_valid (Obj None) = Inl TypeError"
| "neq_valid (Obj (Some p)) = Inr (\<not> prim_eq_valid p)"

subsection \<open>State\<close>

text \<open>
  A position is the widget's position object: square name to piece code. The widget
  hands out and takes in copies, so a stored position is a value that later moves do not
  change. \<open>prev\<close> is declared without a value, so it starts as \<open>undefined\<close>, which is
  \<open>None\<close> here.
  \<open>board1\<close> stands for the widget and holds the position it displays. \<open>inflight\<close> are the
  requests handed to \<open>$.post\<close> whose continuation has not run yet, oldest first, and
  \<open>trace\<close> records every call the script makes to a collaborator, in order.
\<close>

type_synonym position = "string \<rightharpoonup> string"

datatype request = Request (url: string) (payload: "string option")

datatype effect =
    Post string "string option"
  | SetPosition "position option" bool
  | ConsoleLog "position option"

record state =
  prev :: "position option"
  board1 :: position
  inflight :: "request list"
  trace :: "effect list"

subsection \<open>The collaborators\<close>

text \<open>
  Modelled from the spec: the board widget \<open>ChessBoard\<close> is an external library. Its
  contract is a way to read the displayed position and a way to set it to a given
  snapshot without emitting drag events. \<open>position_get\<close> is \<open>board1.position()\<close>;
  \<open>position_set p a\<close> is \<open>board1.position(p, a)\<close>, with \<open>a\<close> the animation flag. The
  contract says nothing about a set to \<open>undefined\<close>; the model records the call and
  leaves the display as it is.
\<close>

definition position_get :: "state \<Rightarrow> position" where
  "position_get s = board1 s"

definition position_set :: "position option \<Rightarrow> bool \<Rightarrow> state \<Rightarrow> state" where
  "position_set p useAnimation s =
     (case p of
        None \<Rightarrow> s\<lparr>trace := trace s @ [SetPosition p useAnimation]\<rparr>
      | Some q \<Rightarrow> s\<lparr>board1 := q, trace := trace s @ [SetPosition p useAnimation]\<rparr>)"

text \<open>
  Modelled from the spec: the transport \<open>$.post\<close> is an external library. It takes a path
  and an optional payload, sends a POST request and returns at once; the continuation runs
  later with the response body and status.
\<close>

definition post :: "string \<Rightarrow> string option \<Rightarrow> state \<Rightarrow> state" where
  "post path body s =
     s\<lparr>inflight := inflight s @ [Request path body],
       trace := trace s @ [Post path body]\<rparr>"

definition console_log :: "position option \<Rightarrow> state \<Rightarrow> state" where
  "console_log v s = s\<lparr>trace := trace s @ [ConsoleLog v]\<rparr>"

subsection \<open>The script\<close>

text \<open>
  Lines 4 to 8: the continuation. An exception thrown by the comparison leaves the
  function before anything else happens.
\<close>

definition callback :: "jsval \<Rightarrow> string \<Rightarrow> state \<Rightarrow> error + state" where
  "callback data status s =
     (case neq_valid data of
        Inl e \<Rightarrow> Inl e
      | Inr b \<Rightarrow> Inr (if b then position_set (prev s) False s else s))"

text \<open>
  Lines 3 to 9. The second argument of \<open>$.post\<close> is the continuation, so no payload is
  passed. Every request gets the same continuation: it has no free variable besides the
  globals \<open>prev\<close> and \<open>board1\<close>. The assignment \<open>callback = function ...\<close> also
  leaves the function in a global of that name, which nothing reads. The squares come
  from the widget as strings.
\<close>

definition onDrop ::
  "string \<Rightarrow> string \<Rightarrow> string \<Rightarrow> position \<Rightarrow> position \<Rightarrow> string \<Rightarrow> state \<Rightarrow> state" where
  "onDrop source target piece newPos oldPos orientation s =
     post (''move/'' @ source @ ''/'' @ target) None s"

text \<open>Lines 11 to 14.\<close>

definition onDragStart :: "state \<Rightarrow> state" where
  "onDragStart s = (let s' = s\<lparr>prev := Some (position_get s)\<rparr> in console_log (prev s') s')"

text \<open>
  Lines 16 to 23: the widget is created showing the start position, with both handlers
  registered. Which position the widget shows for \<open>'start'\<close> is the widget's business, so
  it is a parameter.
\<close>

definition init :: "position \<Rightarrow> state" where
  "init start = \<lparr>prev = None, board1 = start, inflight = [], trace = []\<rparr>"

subsection \<open>Executions\<close>

text \<open>
  Three things happen to the script: the user starts a drag, the user drops a piece, and
  the response to a pending request arrives. \<open>Response i data status\<close> answers the
  \<open>i\<close>-th pending request, counted from 0; when there is no such request nothing
  happens. Any order of events is an execution: the script itself never refuses a drag.
\<close>

datatype event =
    DragStart
  | Drop string string string position position string
  | Response nat jsval string

definition drop_nth :: "nat \<Rightarrow> 'a list \<Rightarrow> 'a list" where
  "drop_nth i xs = take i xs @ drop (Suc i) xs"

text \<open>
  Modelled from the spec: on a drop the widget shows the new position, and the handler
  runs with that position on display. The other two cases are the script's: a drag start
  runs \<open>onDragStart\<close>, and a response takes its request off the pending ones and runs the
  continuation. An exception that escapes the continuation ends the event; the globals
  keep their values.
\<close>

fun step :: "event \<Rightarrow> state \<Rightarrow> state" where
  "step DragStart s = onDragStart s"
| "step (Drop source target piece newPos oldPos orientation) s =
     onDrop source target piece newPos oldPos orientation (s\<lparr>board1 := newPos\<rparr>)"
| "step (Response i data status) s =
     (if i < length (inflight s)
      then (let s' = s\<lparr>inflight := drop_nth i (inflight s)\<rparr>
            in case callback data status s' of Inl e \<Rightarrow> s' | Inr s'' \<Rightarrow> s'')
      else s)"

fun run :: "event list \<Rightarrow> state \<Rightarrow> state" where
  "run [] s = s"
| "run (e # es) s = run es (step e s)"

fun is_drag_start :: "event \<Rightarrow> bool" where
  "is_drag_start DragStart = True"
| "is_drag_start _ = False"

fun is_drop :: "event \<Rightarrow> bool" where
  "is_drop (Drop _ _ _ _ _ _) = True"
| "is_drop _ = False"

fun is_post :: "effect \<Rightarrow> bool" where
  "is_post (Post _ _) = True"
| "is_post _ = False"

text \<open>Example positions: a white pawn on e2, on e4, on e5.\<close>

definition pawn_e2 :: position where
  "pawn_e2 = [''e2'' \<mapsto> ''wP'']"

definition pawn_e4 :: position where
  "pawn_e4 = [''e4'' \<mapsto> ''wP'']"

definition pawn_e5 :: position where
  "pawn_e5 = [''e5'' \<mapsto> ''wP'']"

section \<open>Basic facts\<close>

lemma run_append: "run (es @ es') s = run es' (run es s)"
  by (induction es arbitrary: s) simp_all

lemma pawn_e4_neq_e2: "pawn_e4 \<noteq> pawn_e2"
proof
  assume "pawn_e4 = pawn_e2"
  then have "pawn_e4 ''e4'' = pawn_e2 ''e4''" by simp
  then show False by (simp add: pawn_e4_def pawn_e2_def)
qed

subsection \<open>What each function leaves alone\<close>

lemma prev_position_set [simp]: "prev (position_set p a s) = prev s"
  by (simp add: position_set_def split: option.splits)

lemma inflight_position_set [simp]: "inflight (position_set p a s) = inflight s"
  by (simp add: position_set_def split: option.splits)

lemma trace_position_set [simp]: "trace (position_set p a s) = trace s @ [SetPosition p a]"
  by (simp add: position_set_def split: option.splits)

lemma board1_position_set_Some [simp]: "board1 (position_set (Some q) a s) = q"
  by (simp add: position_set_def)

lemma board1_position_set_None [simp]: "board1 (position_set None a s) = board1 s"
  by (simp add: position_set_def)

lemma prev_onDragStart [simp]: "prev (onDragStart s) = Some (board1 s)"
  by (simp add: onDragStart_def console_log_def position_get_def)

lemma inflight_onDragStart [simp]: "inflight (onDragStart s) = inflight s"
  by (simp add: onDragStart_def console_log_def)

lemma prev_onDrop [simp]: "prev (onDrop a b c d e f s) = prev s"
  by (simp add: onDrop_def post_def)

lemma board1_onDrop [simp]: "board1 (onDrop a b c d e f s) = board1 s"
  by (simp add: onDrop_def post_def)

subsection \<open>The continuation has three outcomes\<close>

lemma callback_rollback:
  "neq_valid data = Inr True \<Longrightarrow> callback data status s = Inr (position_set (prev s) False s)"
  by (simp add: callback_def)

lemma callback_cases:
  "callback data status s = Inl TypeError \<or> callback data status s = Inr s \<or>
   callback data status s = Inr (position_set (prev s) False s)"
  by (cases "neq_valid data") (auto simp: callback_def intro: error.exhaust)

lemma prev_callback: "callback data status s = Inr s' \<Longrightarrow> prev s' = prev s"
  using callback_cases [of data status s] by auto

lemma inflight_callback: "callback data status s = Inr s' \<Longrightarrow> inflight s' = inflight s"
  using callback_cases [of data status s] by auto

subsection \<open>Only a drag start writes \<open>prev\<close>\<close>

lemma prev_step: "\<not> is_drag_start e \<Longrightarrow> prev (step e s) = prev s"
proof (cases e)
  case (Response i data status)
  then show ?thesis
    by (auto simp: Let_def split: sum.splits dest: prev_callback)
qed simp_all

lemma prev_run: "DragStart \<notin> set es \<Longrightarrow> prev (run es s) = prev s"
proof (induction es arbitrary: s)
  case (Cons e es)
  then have "\<not> is_drag_start e" by (cases e) auto
  with Cons show ?case by (simp add: prev_step)
qed simp

lemma prev_after_drag_start:
  "DragStart \<notin> set es' \<Longrightarrow> prev (run (es @ DragStart # es') s) = Some (board1 (run es s))"
  by (simp add: run_append prev_run)

lemma step_response_rollback:
  assumes "neq_valid data = Inr True" and "i < length (inflight s)"
  shows "step (Response i data status) s =
           position_set (prev s) False (s\<lparr>inflight := drop_nth i (inflight s)\<rparr>)"
  using assms by (simp add: callback_rollback Let_def)

subsection \<open>Requests issued and requests pending\<close>

lemma length_drop_nth: "i < length xs \<Longrightarrow> length (drop_nth i xs) = length xs - 1"
  by (simp add: drop_nth_def)

lemma drop_nth_last [simp]: "drop_nth (length xs) (xs @ [x]) = xs"
  by (simp add: drop_nth_def)

lemma posts_step:
  "length (filter is_post (trace (step e s))) =
     length (filter is_post (trace s)) + (if is_drop e then 1 else 0)"
proof (cases e)
  case DragStart
  then show ?thesis by (simp add: onDragStart_def console_log_def)
next
  case (Drop a b c d e f)
  then show ?thesis by (simp add: onDrop_def post_def)
next
  case (Response i data status)
  show ?thesis
    using callback_cases [of data status "s\<lparr>inflight := drop_nth i (inflight s)\<rparr>"]
    by (auto simp: Response Let_def)
qed

lemma posts_run:
  "length (filter is_post (trace (run es s))) =
     length (filter is_post (trace s)) + length (filter is_drop es)"
  by (induction es arbitrary: s) (simp_all add: posts_step)

lemma inflight_step_response:
  "inflight (step (Response i data status) s) =
     (if i < length (inflight s) then drop_nth i (inflight s) else inflight s)"
  using callback_cases [of data status "s\<lparr>inflight := drop_nth i (inflight s)\<rparr>"]
  by (auto simp: Let_def)

lemma inflight_step_le:
  "length (inflight (step e s)) \<le> length (inflight s) + (if is_drop e then 1 else 0)"
proof (cases e)
  case (Drop a b c d e f)
  then show ?thesis by (simp add: onDrop_def post_def)
next
  case (Response i data status)
  then show ?thesis
    using inflight_step_response [of i data status s]
    by (simp add: length_drop_nth del: step.simps)
qed simp

lemma inflight_run_le:
  "length (inflight (run es s)) \<le> length (inflight s) + length (filter is_drop es)"
proof (induction es arbitrary: s)
  case (Cons e es)
  have "length (inflight (run (e # es) s)) \<le>
      length (inflight (step e s)) + length (filter is_drop es)"
    using Cons.IH [of "step e s"] by simp
  also have "\<dots> \<le> length (inflight s) + (if is_drop e then 1 else 0) + length (filter is_drop es)"
    using inflight_step_le [of e s] by simp
  finally show ?case by (simp split: if_splits)
qed simp

section \<open>Rollback\<close>

text \<open>
  On a body that arrives as a string the script does what the specification asks: after
  any execution \<open>es\<close>, a drag start, and any events \<open>es'\<close> without a further drag start,
  the response to a pending request with a string other than \<open>valid\<close> makes the widget
  show the position it displayed at that drag start.
\<close>

lemma rollback_on_string:
  assumes "b \<noteq> ''valid''" and "DragStart \<notin> set es'"
    and "i < length (inflight (run (es @ DragStart # es') s))"
  shows "board1 (run (es @ DragStart # es' @ [Response i (Prim (JStr b)) status]) s) =
           board1 (run es s)"
proof -
  let ?t = "run (es @ DragStart # es') s"
  have nv: "neq_valid (Prim (JStr b)) = Inr True"
    using assms(1) by simp
  have pv: "prev ?t = Some (board1 (run es s))"
    using assms(2) by (rule prev_after_drag_start)
  have "run (es @ DragStart # es' @ [Response i (Prim (JStr b)) status]) s =
      step (Response i (Prim (JStr b)) status) ?t"
    using run_append [of "es @ DragStart # es'" "[Response i (Prim (JStr b)) status]" s] by simp
  also have "\<dots> = position_set (prev ?t) False (?t\<lparr>inflight := drop_nth i (inflight ?t)\<rparr>)"
    using nv assms(3) by (rule step_response_rollback)
  finally show ?thesis using pv by simp
qed

text \<open>
  C1. The claim: whenever the response is anything other than the literal string
  \<open>valid\<close>, the board shows, after the continuation, the snapshot of the most recent
  \<open>onDragStart\<close>. The script does not do this. Line 5 compares with \<open>!=\<close>, which
  converts an object before it compares. A response labelled as JSON with the body
  \<open>["valid"]\<close> reaches the continuation as an array. That is not the string \<open>valid\<close>;
  the test of line 5 is false for it all the same, line 6 is not reached, and after drag
  start, drop from e2 to e4 and this response the board shows the dropped position
  \<open>pawn_e4\<close> while the snapshot is \<open>pawn_e2\<close>.
\<close>

theorem array_valid_is_not_rolled_back:
  "js_array [''valid''] \<noteq> Prim (JStr ''valid'') \<and>
   prev (run [DragStart, Drop ''e2'' ''e4'' ''wP'' pawn_e4 pawn_e2 ''white'',
     Response 0 (js_array [''valid'']) ''success''] (init pawn_e2)) = Some pawn_e2 \<and>
   board1 (run [DragStart, Drop ''e2'' ''e4'' ''wP'' pawn_e4 pawn_e2 ''white'',
     Response 0 (js_array [''valid'']) ''success''] (init pawn_e2)) \<noteq> pawn_e2"
  using pawn_e4_neq_e2
  by (simp add: init_def onDragStart_def onDrop_def post_def console_log_def position_get_def
      drop_nth_def callback_def js_array_def)

section \<open>Classification of the response\<close>

text \<open>
  Among strings the test of line 5 is exact: the continuation does nothing for the string
  \<open>valid\<close> and rolls back for every other string.
\<close>

lemma classification_of_strings:
  "callback (Prim (JStr b)) status s =
     Inr (if b = ''valid'' then s else position_set (prev s) False s)"
  by (simp add: callback_def)

text \<open>
  C2. The claim: only a body exactly equal to the literal string \<open>valid\<close> is accepted,
  and every other body is rejected and rolled back like an explicit rejection. The script
  does not do this. With a snapshot stored and a dropped position on display, the
  continuation treats the array \<open>["valid"]\<close>, which is not that string, exactly as it
  treats \<open>valid\<close>, and not as it treats \<open>invalid\<close>: the loose comparison of line 5
  converts the array to the string \<open>valid\<close> first.
\<close>

theorem array_valid_is_accepted:
  "js_array [''valid''] \<noteq> Prim (JStr ''valid'') \<and>
   callback (js_array [''valid'']) ''success''
     \<lparr>prev = Some pawn_e2, board1 = pawn_e4, inflight = [], trace = []\<rparr> =
   callback (Prim (JStr ''valid'')) ''success''
     \<lparr>prev = Some pawn_e2, board1 = pawn_e4, inflight = [], trace = []\<rparr> \<and>
   callback (js_array [''valid'']) ''success''
     \<lparr>prev = Some pawn_e2, board1 = pawn_e4, inflight = [], trace = []\<rparr> \<noteq>
   callback (Prim (JStr ''invalid'')) ''success''
     \<lparr>prev = Some pawn_e2, board1 = pawn_e4, inflight = [], trace = []\<rparr>"
  by (simp add: callback_def js_array_def position_set_def)

section \<open>Acceptance\<close>

text \<open>
  C3. On the string \<open>valid\<close> the continuation returns the state it was given. So the
  response event changes neither the displayed position, nor \<open>prev\<close>, nor the calls made;
  and when the response follows the drop, the board still shows what it showed right after
  the drop, which is the dropped position.
\<close>

theorem accepted_takes_no_action:
  "callback (Prim (JStr ''valid'')) status s = Inr s \<and>
   board1 (step (Response i (Prim (JStr ''valid'')) status) s) = board1 s \<and>
   prev (step (Response i (Prim (JStr ''valid'')) status) s) = prev s \<and>
   trace (step (Response i (Prim (JStr ''valid'')) status) s) = trace s \<and>
   board1 (run (es @ [Drop source target piece newPos oldPos orientation,
       Response i (Prim (JStr ''valid'')) status]) s) =
     board1 (run (es @ [Drop source target piece newPos oldPos orientation]) s) \<and>
   board1 (run (es @ [Drop source target piece newPos oldPos orientation,
       Response i (Prim (JStr ''valid'')) status]) s) = newPos \<and>
   prev (run (es @ [Drop source target piece newPos oldPos orientation,
       Response i (Prim (JStr ''valid'')) status]) s) =
     prev (run (es @ [Drop source target piece newPos oldPos orientation]) s)"
proof -
  have cb: "callback (Prim (JStr ''valid'')) status t = Inr t" for t
    by (simp add: callback_def)
  have st: "board1 (step (Response i (Prim (JStr ''valid'')) status) t) = board1 t \<and>
      prev (step (Response i (Prim (JStr ''valid'')) status) t) = prev t \<and>
      trace (step (Response i (Prim (JStr ''valid'')) status) t) = trace t" for t
    by (simp add: cb Let_def)
  have dr: "board1 (run (es @ [Drop source target piece newPos oldPos orientation]) s) = newPos"
    by (simp add: run_append)
  have sp: "run (es @ [Drop source target piece newPos oldPos orientation,
        Response i (Prim (JStr ''valid'')) status]) s =
      step (Response i (Prim (JStr ''valid'')) status)
        (run (es @ [Drop source target piece newPos oldPos orientation]) s)"
    by (simp add: run_append)
  show ?thesis
    unfolding sp using cb [of s] st dr by (simp del: step.simps)
qed

section \<open>The snapshot\<close>

text \<open>
  C4. \<open>onDragStart\<close> stores the displayed position in \<open>prev\<close> whatever \<open>prev\<close> held before.
  After an execution \<open>es\<close>, a drag start and any events \<open>es'\<close> without a further drag
  start, \<open>prev\<close> is the position displayed at that last drag start; and a continuation
  that runs then either throws, or leaves the state alone, or sets the board to exactly
  that position.
\<close>

theorem snapshot_replacement:
  assumes "DragStart \<notin> set es'"
  shows "prev (onDragStart s) = Some (board1 s) \<and>
         prev (run (es @ DragStart # es') s) = Some (board1 (run es s)) \<and>
         (callback data status (run (es @ DragStart # es') s) = Inl TypeError \<or>
          callback data status (run (es @ DragStart # es') s) = Inr (run (es @ DragStart # es') s) \<or>
          callback data status (run (es @ DragStart # es') s) =
            Inr (position_set (Some (board1 (run es s))) False (run (es @ DragStart # es') s)))"
proof -
  have "prev (run (es @ DragStart # es') s) = Some (board1 (run es s))"
    using assms by (rule prev_after_drag_start)
  then show ?thesis
    using callback_cases [of data status "run (es @ DragStart # es') s"] by simp
qed

text \<open>
  Two moves, the second begun before the first is answered: e2 to e4, then e4 to e5. The
  rejection of the first arrives last and puts the pawn on e4, the snapshot of the second
  drag start, not on e2.
\<close>

theorem snapshot_replacement_witness:
  "board1 (run ([DragStart, Drop ''e2'' ''e4'' ''wP'' pawn_e4 pawn_e2 ''white''] @ DragStart #
       [Drop ''e4'' ''e5'' ''wP'' pawn_e5 pawn_e4 ''white'']) (init pawn_e2)) = pawn_e5 \<and>
   prev (run ([DragStart, Drop ''e2'' ''e4'' ''wP'' pawn_e4 pawn_e2 ''white''] @ DragStart #
       [Drop ''e4'' ''e5'' ''wP'' pawn_e5 pawn_e4 ''white'']) (init pawn_e2)) = Some pawn_e4 \<and>
   board1 (step (Response 0 (Prim (JStr ''invalid'')) ''success'')
     (run ([DragStart, Drop ''e2'' ''e4'' ''wP'' pawn_e4 pawn_e2 ''white''] @ DragStart #
       [Drop ''e4'' ''e5'' ''wP'' pawn_e5 pawn_e4 ''white'']) (init pawn_e2))) = pawn_e4"
proof -
  have d: "DragStart \<notin> set [Drop ''e4'' ''e5'' ''wP'' pawn_e5 pawn_e4 ''white'']" by simp
  have "prev (run ([DragStart, Drop ''e2'' ''e4'' ''wP'' pawn_e4 pawn_e2 ''white''] @ DragStart #
       [Drop ''e4'' ''e5'' ''wP'' pawn_e5 pawn_e4 ''white'']) (init pawn_e2)) =
     Some (board1 (run [DragStart, Drop ''e2'' ''e4'' ''wP'' pawn_e4 pawn_e2 ''white'']
       (init pawn_e2)))"
    using snapshot_replacement [OF d] by blast
  then show ?thesis
    by (simp add: init_def onDragStart_def onDrop_def post_def console_log_def position_get_def
      drop_nth_def callback_def)
qed

section \<open>Requests in flight\<close>

text \<open>
  C5, amended. The script has one slot for a snapshot, \<open>prev\<close>. Over every interleaving
  of drag starts, drops and responses it has issued exactly one request per drop. The
  number of requests waiting for their response is not bounded by one: a drop adds one
  request with the path of its two squares, a drag start adds none, the response to a
  pending request removes one, and so at most as many wait as there were drops.
\<close>

theorem one_request_per_drop:
  "length (filter is_post (trace (run es s))) =
     length (filter is_post (trace s)) + length (filter is_drop es) \<and>
   length (inflight (run es s)) \<le> length (inflight s) + length (filter is_drop es) \<and>
   inflight (step (Drop source target piece newPos oldPos orientation) s) =
     inflight s @ [Request (''move/'' @ source @ ''/'' @ target) None] \<and>
   inflight (step DragStart s) = inflight s \<and>
   (i < length (inflight s) \<longrightarrow>
      Suc (length (inflight (step (Response i data status) s))) = length (inflight s))"
proof -
  have "i < length (inflight s) \<longrightarrow>
      Suc (length (inflight (step (Response i data status) s))) = length (inflight s)"
    using inflight_step_response [of i data status s]
    by (auto simp add: length_drop_nth simp del: step.simps)
  moreover have "inflight (step (Drop source target piece newPos oldPos orientation) s) =
      inflight s @ [Request (''move/'' @ source @ ''/'' @ target) None]"
    by (simp add: onDrop_def post_def)
  ultimately show ?thesis
    using posts_run [of es s] inflight_run_le [of es s] by simp
qed

text \<open>
  Scenario 1 of the specification: one drag, one drop, the answer \<open>valid\<close>. One request
  was issued and none is waiting.
\<close>

theorem one_request_per_drop_witness:
  "length (inflight (run [DragStart, Drop ''e2'' ''e4'' ''wP'' pawn_e4 pawn_e2 ''white'',
      Response 0 (Prim (JStr ''valid'')) ''success''] (init pawn_e2))) = 0 \<and>
   length (filter is_post (trace (run [DragStart,
      Drop ''e2'' ''e4'' ''wP'' pawn_e4 pawn_e2 ''white'',
      Response 0 (Prim (JStr ''valid'')) ''success''] (init pawn_e2)))) = 1"
proof -
  let ?s = "run [DragStart, Drop ''e2'' ''e4'' ''wP'' pawn_e4 pawn_e2 ''white''] (init pawn_e2)"
  have h: "0 < length (inflight ?s)" by (simp add: onDrop_def post_def)
  have "Suc (length (inflight (step (Response 0 (Prim (JStr ''valid'')) ''success'') ?s))) =
      length (inflight ?s)"
    using one_request_per_drop [of "[]" ?s _ _ _ _ _ _ 0] h by blast
  then show ?thesis
    by (simp add: init_def onDragStart_def onDrop_def post_def console_log_def position_get_def
        callback_def drop_nth_def)
qed

text \<open>
  The claim as it is written allows at most one outstanding proposal at any instant.
  Nothing in the script refuses a drag while a request is pending: after a second drag
  and drop, before any response, two requests wait.
\<close>

theorem two_requests_outstanding:
  "\<not> length (inflight (run [DragStart, Drop ''e2'' ''e4'' ''wP'' pawn_e4 pawn_e2 ''white'',
      DragStart, Drop ''e4'' ''e5'' ''wP'' pawn_e5 pawn_e4 ''white''] (init pawn_e2))) \<le> 1"
  by (simp add: init_def onDragStart_def onDrop_def post_def console_log_def position_get_def)

section \<open>The rollback call\<close>

text \<open>
  C6. When the test of line 5 holds, the continuation makes one call and changes nothing
  else: \<open>board1.position(prev, false)\<close>, with the animation flag false. It issues no
  request and calls no handler, so \<open>prev\<close> and the pending requests stay as they are; the
  response event as a whole removes the answered request and adds that one call.
\<close>

theorem rollback_is_a_plain_set:
  assumes "neq_valid data = Inr True"
  shows "callback data status s = Inr (position_set (prev s) False s) \<and>
         trace (position_set (prev s) False s) = trace s @ [SetPosition (prev s) False] \<and>
         prev (position_set (prev s) False s) = prev s \<and>
         inflight (position_set (prev s) False s) = inflight s \<and>
         (i < length (inflight s) \<longrightarrow>
            trace (step (Response i data status) s) = trace s @ [SetPosition (prev s) False] \<and>
            prev (step (Response i data status) s) = prev s \<and>
            inflight (step (Response i data status) s) = drop_nth i (inflight s))"
proof -
  have cb: "callback data status t = Inr (position_set (prev t) False t)" for t
    using assms by (rule callback_rollback)
  show ?thesis by (simp add: cb Let_def)
qed

theorem rollback_is_a_plain_set_witness:
  "trace (step (Response 0 (Prim (JStr ''invalid'')) ''success'')
      \<lparr>prev = Some pawn_e2, board1 = pawn_e5,
        inflight = [Request ''move/e2/e5'' None], trace = []\<rparr>) =
     [SetPosition (Some pawn_e2) False] \<and>
   inflight (step (Response 0 (Prim (JStr ''invalid'')) ''success'')
      \<lparr>prev = Some pawn_e2, board1 = pawn_e5,
        inflight = [Request ''move/e2/e5'' None], trace = []\<rparr>) = []"
proof -
  have a: "neq_valid (Prim (JStr ''invalid'')) = Inr True" by simp
  show ?thesis
    using rollback_is_a_plain_set [OF a, of "''success''"
        "\<lparr>prev = Some pawn_e2, board1 = pawn_e5,
          inflight = [Request ''move/e2/e5'' None], trace = []\<rparr>" 0]
    by (simp add: drop_nth_def)
qed

section \<open>The request\<close>

text \<open>
  C7. \<open>onDrop\<close> does one thing: it posts to the path \<open>move/\<close>, the source square, a
  slash, the target square, with no payload. When the response to that request arrives,
  the state is what the continuation makes of it, called with the response's body and
  status; if the continuation throws, only the request is gone.
\<close>

theorem request_path:
  "onDrop source target piece newPos oldPos orientation s =
     s\<lparr>inflight := inflight s @ [Request (''move/'' @ source @ ''/'' @ target) None],
       trace := trace s @ [Post (''move/'' @ source @ ''/'' @ target) None]\<rparr> \<and>
   step (Response (length (inflight s)) data status)
       (onDrop source target piece newPos oldPos orientation s) =
     (case callback data status
             (s\<lparr>trace := trace s @ [Post (''move/'' @ source @ ''/'' @ target) None]\<rparr>) of
        Inl e \<Rightarrow> s\<lparr>trace := trace s @ [Post (''move/'' @ source @ ''/'' @ target) None]\<rparr>
      | Inr t \<Rightarrow> t)"
proof -
  have "onDrop source target piece newPos oldPos orientation s =
      s\<lparr>inflight := inflight s @ [Request (''move/'' @ source @ ''/'' @ target) None],
        trace := trace s @ [Post (''move/'' @ source @ ''/'' @ target) None]\<rparr>"
    by (simp add: onDrop_def post_def)
  then show ?thesis
    by (simp add: Let_def split: sum.splits)
qed

text \<open>
  C8. A drop on the square the piece came from is handled like any other. The request
  \<open>move/sq/sq\<close> is issued and waits; the answer \<open>valid\<close> to it leaves the board as
  dropped, and the answer \<open>invalid\<close> sets the board to \<open>prev\<close>.
\<close>

theorem drop_on_source_square:
  "inflight (step (Drop sq sq piece newPos oldPos orientation) s) =
     inflight s @ [Request (''move/'' @ sq @ ''/'' @ sq) None] \<and>
   trace (step (Drop sq sq piece newPos oldPos orientation) s) =
     trace s @ [Post (''move/'' @ sq @ ''/'' @ sq) None] \<and>
   step (Response (length (inflight s)) (Prim (JStr ''valid'')) status)
       (step (Drop sq sq piece newPos oldPos orientation) s) =
     s\<lparr>board1 := newPos, trace := trace s @ [Post (''move/'' @ sq @ ''/'' @ sq) None]\<rparr> \<and>
   step (Response (length (inflight s)) (Prim (JStr ''invalid'')) status)
       (step (Drop sq sq piece newPos oldPos orientation) s) =
     position_set (prev s) False
       (s\<lparr>board1 := newPos, trace := trace s @ [Post (''move/'' @ sq @ ''/'' @ sq) None]\<rparr>)"
proof -
  have "step (Drop sq sq piece newPos oldPos orientation) s =
      s\<lparr>board1 := newPos,
        inflight := inflight s @ [Request (''move/'' @ sq @ ''/'' @ sq) None],
        trace := trace s @ [Post (''move/'' @ sq @ ''/'' @ sq) None]\<rparr>"
    by (simp add: onDrop_def post_def)
  then show ?thesis
    by (simp add: Let_def callback_def)
qed

section \<open>Arguments that are not read\<close>

text \<open>
  C9. \<open>onDrop\<close> reads its first two arguments only, and the continuation reads \<open>data\<close>
  only: with other values for the piece, the two positions, the orientation and the
  status, the results are the same.
\<close>

theorem unused_arguments:
  "onDrop source target piece newPos oldPos orientation s =
     onDrop source target piece' newPos' oldPos' orientation' s \<and>
   callback data status s = callback data status' s"
proof -
  have "onDrop source target piece newPos oldPos orientation s =
      post (''move/'' @ source @ ''/'' @ target) None s"
    by (simp add: onDrop_def)
  moreover have "onDrop source target piece' newPos' oldPos' orientation' s =
      post (''move/'' @ source @ ''/'' @ target) None s"
    by (simp add: onDrop_def)
  moreover have "callback data status s = callback data status' s"
    by (simp add: callback_def)
  ultimately show ?thesis by simp
qed

section \<open>Before the first drag start\<close>

text \<open>
  C10. As long as no drag start has happened, \<open>prev\<close> is still \<open>undefined\<close>. A
  continuation that runs then, with a value for which the test of line 5 holds, calls
  \<open>board1.position(undefined, false)\<close>.
\<close>

theorem rollback_before_any_drag_start:
  assumes "DragStart \<notin> set es" and "neq_valid data = Inr True"
    and "i < length (inflight (run es (init start)))"
  shows "prev (run es (init start)) = None \<and>
         callback data status (run es (init start)) =
           Inr (position_set None False (run es (init start))) \<and>
         trace (run (es @ [Response i data status]) (init start)) =
           trace (run es (init start)) @ [SetPosition None False]"
proof -
  have p: "prev (run es (init start)) = None"
    using assms(1) by (simp add: prev_run init_def)
  have "step (Response i data status) (run es (init start)) =
      position_set (prev (run es (init start))) False
        ((run es (init start))\<lparr>inflight := drop_nth i (inflight (run es (init start)))\<rparr>)"
    using assms(2,3) by (rule step_response_rollback)
  then show ?thesis
    using p callback_rollback [OF assms(2), of status "run es (init start)"]
    by (simp add: run_append)
qed

theorem rollback_before_any_drag_start_witness:
  "trace (run ([Drop ''e2'' ''e4'' ''wP'' pawn_e4 pawn_e2 ''white''] @
       [Response 0 (Prim (JStr ''invalid'')) ''success'']) (init pawn_e2)) =
     [Post ''move/e2/e4'' None, SetPosition None False]"
proof -
  have a: "DragStart \<notin> set [Drop ''e2'' ''e4'' ''wP'' pawn_e4 pawn_e2 ''white'']" by simp
  have b: "neq_valid (Prim (JStr ''invalid'')) = Inr True" by simp
  have c: "0 < length (inflight (run [Drop ''e2'' ''e4'' ''wP'' pawn_e4 pawn_e2 ''white'']
      (init pawn_e2)))"
    by (simp add: onDrop_def post_def)
  show ?thesis
    using rollback_before_any_drag_start [OF a b c, of "''success''"]
    by (simp add: init_def onDrop_def post_def)
qed

end
